theory Spec2Isabelle
  imports Main "HOL-Library.Finite_Map"
begin

section \<open>gorender: the template cache and the render pipeline of render.go\<close>

text \<open>
  The embedding follows \<^verbatim>\<open>render.go\<close> function by function. What the Go code gets
  from outside the file is a parameter of the model, collected in the record \<open>env\<close>:
  the directory walk of \<^verbatim>\<open>filepath.WalkDir\<close>, the parser and the executor of
  \<^verbatim>\<open>html/template\<close>, \<^verbatim>\<open>nosurf.Token\<close>, and \<^verbatim>\<open>bytes.Buffer.WriteTo\<close> on the
  response writer. The two pure path functions \<^verbatim>\<open>filepath.Ext\<close> and
  \<^verbatim>\<open>filepath.Base\<close> are written out (for the separator \<^verbatim>\<open>/\<close>).

  Conventions:
  \<^item> a Go map is a finite map (\<open>fmap\<close>); the field \<open>Functions\<close> is the only map the
    code assigns into, so it is an \<open>fmap option\<close> with \<open>None\<close> for the nil map (the zero
    value of the exported struct), and assigning into the nil map is the panic it is in Go.
    A nil \<open>TemplateCache\<close> is only ever read or replaced and reads like the empty map;
  \<^item> a function returning \<^verbatim>\<open>(value, error)\<close> returns a pair whose second component is
    \<open>None\<close> for a nil error, because \<^verbatim>\<open>createTemplateCache\<close> returns a usable map next
    to a non-nil error and one caller keeps it;
  \<^item> a call that can panic returns \<open>panic + 'a\<close> with \<open>Inl\<close> for the panic. Two panics
    are in reach of this file: the assignment into a nil map, and \<^verbatim>\<open>template.Funcs\<close>, which
    panics on a registered name that is not an identifier or a value that is not a
    suitable function;
  \<^item> pointer arguments (\<^verbatim>\<open>opts\<close>, \<^verbatim>\<open>re\<close>, \<^verbatim>\<open>td\<close>, \<^verbatim>\<open>r\<close>) are taken to be non-nil and
    mutation through them is explicit state passing;
  \<^item> the \<^verbatim>\<open>slog\<close> calls only write to the process log and are left out.
\<close>

subsection \<open>Data\<close>

datatype error =
  ErrorsNew string   \<comment> \<open>\<^verbatim>\<open>errors.New(msg)\<close>\<close>
| LibError string    \<comment> \<open>an error value handed back by a library call\<close>

datatype panic =
  AssignToNilMap     \<comment> \<open>\<^verbatim>\<open>assignment to entry in nil map\<close>\<close>
| LibPanic string    \<comment> \<open>a panic raised inside a library call\<close>

datatype any = AnyNil | AnyString string | AnyInt int | AnyBool bool

text \<open>
  The callables of a \<^verbatim>\<open>template.FuncMap\<close>. The three defaults are functions of the package
  that \<^verbatim>\<open>New\<close> registers; only their identity matters here.
\<close>

datatype callable = translateKey | or_func | containsErrors | UserFunc string

type_synonym FuncMap = "(string, callable) fmap"

type_synonym 't TemplateCache = "(string, 't) fmap"

record 't Render =
  EnableCache :: bool
  TemplatesPath :: string
  PageTemplatesPath :: string
  TemplateCache :: "'t TemplateCache"
  Functions :: "FuncMap option"

text \<open>
  Modelled from the spec: \<^verbatim>\<open>FormData\<close> and \<^verbatim>\<open>Pages\<close> are declared in another file of the
  package. The spec calls the first an opaque form state holding field errors and
  resubmitted values, the second an opaque page discriminator.
\<close>

datatype FormData = MkFormData "(string \<times> string) list" "(string \<times> string) list"

datatype Pages = MkPages nat

record TemplateData =
  Data :: "(string, any) fmap"
  SessionData :: any
  FeedbackData :: "(string, string) fmap"
  FormData :: FormData
  CSRFToken :: string
  Page :: Pages

text \<open>
  One call of the \<^verbatim>\<open>WalkDirFunc\<close>: \<^verbatim>\<open>fn(path, d, nil)\<close> with \<^verbatim>\<open>d.IsDir()\<close>, or
  \<^verbatim>\<open>fn(path, d, err)\<close> with a non-nil error.
\<close>

datatype visit = Visit string bool | VisitErr string error

record ('w, 'r, 't) env =
  WalkDir :: "string \<Rightarrow> visit list"
    \<comment> \<open>the calls \<^verbatim>\<open>filepath.WalkDir(root, fn)\<close> makes, in order, while \<^verbatim>\<open>fn\<close> returns nil\<close>
  ParseFiles :: "string \<Rightarrow> FuncMap option \<Rightarrow> string list \<Rightarrow> panic + error + 't"
    \<comment> \<open>\<^verbatim>\<open>template.New(name).Funcs(funcs).ParseFiles(files...)\<close>: the panic of
        \<^verbatim>\<open>Funcs\<close>, or the error or the template of \<^verbatim>\<open>ParseFiles\<close>\<close>
  Execute :: "'t \<Rightarrow> TemplateData \<Rightarrow> string \<times> error option"
    \<comment> \<open>\<^verbatim>\<open>t.Execute(buf, td)\<close> on a new buffer: the bytes left in \<^verbatim>\<open>buf\<close> and the error\<close>
  Token :: "'r \<Rightarrow> string"
    \<comment> \<open>\<^verbatim>\<open>nosurf.Token(r)\<close>\<close>
  WriteTo :: "string \<Rightarrow> 'w \<Rightarrow> 'w \<times> error option"
    \<comment> \<open>\<^verbatim>\<open>buf.WriteTo(w)\<close>: the response writer afterwards and the error\<close>

subsection \<open>\<^verbatim>\<open>filepath.Ext\<close> and \<^verbatim>\<open>filepath.Base\<close>\<close>

text \<open>
  \<^verbatim>\<open>Ext\<close> scans from the last byte towards the first, stops at a separator, and returns
  the suffix starting at the first dot it meets. The scan runs over the reversed path;
  \<open>acc\<close> is the part already passed.
\<close>

fun Ext_scan :: "string \<Rightarrow> string \<Rightarrow> string" where
  "Ext_scan [] acc = []"
| "Ext_scan (c # cs) acc =
     (if c = CHR ''/'' then []
      else if c = CHR ''.'' then c # acc
      else Ext_scan cs (c # acc))"

definition Ext :: "string \<Rightarrow> string" where
  "Ext path = Ext_scan (rev path) []"

definition Base :: "string \<Rightarrow> string" where
  "Base path =
     (if path = [] then ''.''
      else
        let stripped = rev (dropWhile (\<lambda>c. c = CHR ''/'') (rev path));
            element = rev (takeWhile (\<lambda>c. c \<noteq> CHR ''/'') (rev stripped))
        in if element = [] then ''/'' else element)"

subsection \<open>\<^verbatim>\<open>findHTMLFiles\<close>\<close>

text \<open>
  The callback returns the error it is given, which ends the walk; otherwise it appends
  the path when the entry is not a directory and its extension is \<^verbatim>\<open>.html\<close>.
\<close>

fun walk_callback :: "visit list \<Rightarrow> string list \<Rightarrow> error + string list" where
  "walk_callback [] files = Inr files"
| "walk_callback (VisitErr path err # rest) files = Inl err"
| "walk_callback (Visit path isDir # rest) files =
     (if \<not> isDir \<and> Ext path = ''.html''
      then walk_callback rest (files @ [path])
      else walk_callback rest files)"

definition findHTMLFiles :: "('w, 'r, 't) env \<Rightarrow> string \<Rightarrow> error + string list" where
  "findHTMLFiles E root = walk_callback (WalkDir E root) []"

subsection \<open>\<^verbatim>\<open>createTemplateCache\<close>\<close>

text \<open>
  The loop over \<^verbatim>\<open>pagesTemplates\<close>; \<open>myCache\<close> is the map built so far. A panic of
  \<^verbatim>\<open>Funcs\<close> leaves the function; an error of \<^verbatim>\<open>ParseFiles\<close> returns the map built so
  far next to the error.
\<close>

fun parse_pages ::
  "('w, 'r, 't) env \<Rightarrow> FuncMap option \<Rightarrow> string list \<Rightarrow> string list \<Rightarrow>
   't TemplateCache \<Rightarrow> panic + 't TemplateCache \<times> error option" where
  "parse_pages E funcs files [] myCache = Inr (myCache, None)"
| "parse_pages E funcs files (file # rest) myCache =
     (let name = Base file in
      case ParseFiles E name funcs (files @ [file]) of
        Inl p \<Rightarrow> Inl p
      | Inr (Inl err) \<Rightarrow> Inr (myCache, Some err)
      | Inr (Inr ts) \<Rightarrow> parse_pages E funcs files rest (fmupd name ts myCache))"

definition createTemplateCache ::
  "('w, 'r, 't) env \<Rightarrow> 't Render \<Rightarrow> panic + 't TemplateCache \<times> error option" where
  "createTemplateCache E re =
     (case findHTMLFiles E (PageTemplatesPath re) of
        Inl err \<Rightarrow> Inr (fmempty, Some err)
      | Inr pagesTemplates \<Rightarrow>
          (case findHTMLFiles E (TemplatesPath re) of
             Inl err \<Rightarrow> Inr (fmempty, Some err)
           | Inr files \<Rightarrow> parse_pages E (Functions re) files pagesTemplates fmempty))"

subsection \<open>\<^verbatim>\<open>WithRenderOptions\<close>, \<^verbatim>\<open>apply\<close>, \<^verbatim>\<open>New\<close>\<close>

type_synonym 't OptionFunc = "'t Render \<Rightarrow> panic + 't Render"

text \<open>
  The method \<^verbatim>\<open>apply\<close> is \<open>apply_opts\<close> below, since \<open>apply\<close> is a keyword of Isar.

  The \<^verbatim>\<open>range\<close> loop \<^verbatim>\<open>re.Functions[k] = v\<close>. A nil \<^verbatim>\<open>opts.Functions\<close> skips it; an empty
  one runs no iteration; with at least one entry the first assignment panics when
  \<^verbatim>\<open>re.Functions\<close> is nil. The keys of a Go map are distinct, so the order of the
  iterations does not show in the result, which is the right-biased union.
\<close>

definition merge_functions :: "FuncMap option \<Rightarrow> FuncMap option \<Rightarrow> panic + FuncMap option" where
  "merge_functions base supplied =
     (case supplied of
        None \<Rightarrow> Inr base
      | Some s \<Rightarrow>
          (case base of
             None \<Rightarrow> if fmdom s = {||} then Inr None else Inl AssignToNilMap
           | Some b \<Rightarrow> Inr (Some (b ++\<^sub>f s))))"

definition WithRenderOptions :: "('w, 'r, 't) env \<Rightarrow> 't Render \<Rightarrow> 't OptionFunc" where
  "WithRenderOptions E opts re =
     (let re1 = re\<lparr>TemplatesPath := TemplatesPath opts,
                   PageTemplatesPath := PageTemplatesPath opts\<rparr>
      in case merge_functions (Functions re1) (Functions opts) of
           Inl p \<Rightarrow> Inl p
         | Inr funcs \<Rightarrow>
             (let re2 = re1\<lparr>Functions := funcs\<rparr>
              in if EnableCache opts
                 then (let re3 = re2\<lparr>EnableCache := EnableCache opts\<rparr>
                       in case createTemplateCache E re3 of
                            Inl p \<Rightarrow> Inl p
                          | Inr (tc, err) \<Rightarrow> Inr (re3\<lparr>TemplateCache := tc\<rparr>))
                 else Inr re2))"

fun apply_opts :: "'t Render \<Rightarrow> 't OptionFunc list \<Rightarrow> panic + 't Render" where
  "apply_opts re [] = Inr re"
| "apply_opts re (opt # opts) =
     (case opt re of Inl p \<Rightarrow> Inl p | Inr re' \<Rightarrow> apply_opts re' opts)"

definition default_functions :: FuncMap where
  "default_functions =
     fmupd ''containsErrors'' containsErrors
       (fmupd ''or'' or_func
         (fmupd ''translateKey'' translateKey fmempty))"

definition New :: "'t OptionFunc list \<Rightarrow> panic + 't Render" where
  "New opts =
     apply_opts \<lparr>EnableCache = False,
                 TemplatesPath = ''templates'',
                 PageTemplatesPath = ''templates/pages'',
                 TemplateCache = fmempty,
                 Functions = Some default_functions\<rparr> opts"

subsection \<open>\<^verbatim>\<open>addDefaultData\<close> and \<^verbatim>\<open>Template\<close>\<close>

definition addDefaultData :: "('w, 'r, 't) env \<Rightarrow> TemplateData \<Rightarrow> 'r \<Rightarrow> TemplateData" where
  "addDefaultData E td r = td\<lparr>CSRFToken := Token E r\<rparr>"

text \<open>
  Lines 101 to 109 of \<^verbatim>\<open>Template\<close>: the stored cache with a nil error when caching is
  on, a fresh build with its error otherwise.
\<close>

definition resolve_cache ::
  "('w, 'r, 't) env \<Rightarrow> 't Render \<Rightarrow> panic + 't TemplateCache \<times> error option" where
  "resolve_cache E re =
     (if EnableCache re then Inr (TemplateCache re, None) else createTemplateCache E re)"

text \<open>
  The result of a call that returns is the returned error, the response writer after
  the call, and the \<^verbatim>\<open>TemplateData\<close> behind \<^verbatim>\<open>td\<close> after the call.
\<close>

definition Template ::
  "('w, 'r, 't) env \<Rightarrow> 't Render \<Rightarrow> 'w \<Rightarrow> 'r \<Rightarrow> string \<Rightarrow> TemplateData \<Rightarrow>
   panic + error option \<times> 'w \<times> TemplateData" where
  "Template E re w r tmpl td =
     (case resolve_cache E re of
        Inl p \<Rightarrow> Inl p
      | Inr (tc, Some err) \<Rightarrow> Inr (Some err, w, td)
      | Inr (tc, None) \<Rightarrow>
          (case fmlookup tc tmpl of
             None \<Rightarrow> Inr (Some (ErrorsNew ''can't get template from cache''), w, td)
           | Some t \<Rightarrow>
               (let td' = addDefaultData E td r
                in case Execute E t td' of
                     (buf, Some err) \<Rightarrow> Inr (Some err, w, td')
                   | (buf, None) \<Rightarrow>
                       (let (w', err) = WriteTo E buf w
                        in Inr (None, w', td')))))"

subsection \<open>Reading aids and an example environment\<close>

text \<open>The entries a possibly nil map reads as.\<close>

definition registry :: "FuncMap option \<Rightarrow> FuncMap" where
  "registry m = (case m of None \<Rightarrow> fmempty | Some s \<Rightarrow> s)"

text \<open>The three plain configuration keys of a \<^verbatim>\<open>Render\<close>.\<close>

definition config_keys :: "'t Render \<Rightarrow> bool \<times> string \<times> string" where
  "config_keys re = (EnableCache re, TemplatesPath re, PageTemplatesPath re)"

text \<open>
  The example environment: a response writer that records what it received or whose
  connection is gone; a pages root with a base name used twice, a root with a page that
  does not parse, one fragment; a template that needs the key \<^verbatim>\<open>title\<close> of the data.
  A compiled template is the pair of its name and its files. Its \<^verbatim>\<open>Funcs\<close> panics on a
  name that is not an identifier: \<open>goodName\<close> is the check of \<^verbatim>\<open>text/template\<close> on ASCII
  names (empty names are refused, an underscore is accepted anywhere, the first byte
  otherwise is a letter and the others are letters or digits).
\<close>

definition is_letter :: "char \<Rightarrow> bool" where
  "is_letter c = (c \<in> set ''abcdefghijklmnopqrstuvwxyzABCDEFGHIJKLMNOPQRSTUVWXYZ'')"

definition is_digit :: "char \<Rightarrow> bool" where
  "is_digit c = (c \<in> set ''0123456789'')"

fun good_runes :: "bool \<Rightarrow> string \<Rightarrow> bool" where
  "good_runes first [] = True"
| "good_runes first (c # cs) =
     (if c = CHR ''_'' then good_runes False cs
      else if first \<and> \<not> is_letter c then False
      else if \<not> is_letter c \<and> \<not> is_digit c then False
      else good_runes False cs)"

definition goodName :: "string \<Rightarrow> bool" where
  "goodName name = (if name = [] then False else good_runes True name)"

definition demo_funcs_ok :: "FuncMap option \<Rightarrow> bool" where
  "demo_funcs_ok funcs = fmpred (\<lambda>name fn. goodName name) (registry funcs)"

datatype sink = Open string | Closed

definition demo_walk :: "string \<Rightarrow> visit list" where
  "demo_walk root =
     (if root = ''pages'' then
        [Visit ''pages'' True, Visit ''pages/a'' True, Visit ''pages/a/home.html'' False,
         Visit ''pages/about.html'' False, Visit ''pages/b'' True,
         Visit ''pages/b/home.html'' False, Visit ''pages/notes.txt'' False]
      else if root = ''frag'' then
        [Visit ''frag'' True, Visit ''frag/layout.html'' False]
      else if root = ''site'' then
        [Visit ''site'' True, Visit ''site/index.html'' False,
         Visit ''site/malformed.html'' False, Visit ''site/thanks.html'' False]
      else [VisitErr root (LibError ''lstat: no such file or directory'')])"

definition demo_parse ::
  "string \<Rightarrow> FuncMap option \<Rightarrow> string list \<Rightarrow> panic + error + string \<times> string list" where
  "demo_parse name funcs files =
     (if \<not> demo_funcs_ok funcs then Inl (LibPanic ''function name is not a valid identifier'')
      else if ''site/malformed.html'' \<in> set files
      then Inr (Inl (LibError ''template: unexpected EOF''))
      else Inr (Inr (name, files)))"

definition demo_execute :: "string \<times> string list \<Rightarrow> TemplateData \<Rightarrow> string \<times> error option" where
  "demo_execute t td =
     (case fmlookup (Data td) ''title'' of
        None \<Rightarrow> (''<h1>'', Some (LibError ''template: nil data; no entry for key title''))
      | Some v \<Rightarrow> (''<h1>'' @ fst t @ ''</h1>'' @ CSRFToken td, None))"

definition demo_write :: "string \<Rightarrow> sink \<Rightarrow> sink \<times> error option" where
  "demo_write buf w =
     (case w of
        Open got \<Rightarrow> (Open (got @ buf), None)
      | Closed \<Rightarrow> (Closed, Some (LibError ''write: broken pipe'')))"

definition demo :: "(sink, string, string \<times> string list) env" where
  "demo = \<lparr>WalkDir = demo_walk, ParseFiles = demo_parse, Execute = demo_execute,
           Token = (\<lambda>r. ''token-'' @ r), WriteTo = demo_write\<rparr>"

definition demo_options :: "string \<Rightarrow> bool \<Rightarrow> (string \<times> string list) Render" where
  "demo_options pagesRoot cache =
     \<lparr>EnableCache = cache, TemplatesPath = ''frag'', PageTemplatesPath = pagesRoot,
      TemplateCache = fmempty, Functions = None\<rparr>"

definition demo_data :: "(string, any) fmap \<Rightarrow> TemplateData" where
  "demo_data entries =
     \<lparr>Data = entries, SessionData = AnyNil, FeedbackData = fmempty,
      FormData = MkFormData [] [], CSRFToken = [], Page = MkPages 0\<rparr>"

text \<open>The zero value \<^verbatim>\<open>Render{}\<close>, and example function maps and view data.\<close>

definition zero_options :: "(string \<times> string list) Render" where
  "zero_options =
     \<lparr>EnableCache = False, TemplatesPath = [], PageTemplatesPath = [],
      TemplateCache = fmempty, Functions = None\<rparr>"

definition demo_functions :: FuncMap where
  "demo_functions = fmupd ''upper'' (UserFunc ''strings.ToUpper'') (fmupd ''or'' (UserFunc ''either'') fmempty)"

definition bad_functions :: FuncMap where
  "bad_functions = fmupd ''my-func'' (UserFunc ''strings.ToLower'') fmempty"

definition demo_title :: "(string, any) fmap" where
  "demo_title = fmupd ''title'' (AnyString ''About'') fmempty"

section \<open>Properties\<close>

subsection \<open>The example environment, evaluated\<close>

lemma demo_fields:
  "WalkDir demo = demo_walk" "ParseFiles demo = demo_parse" "Execute demo = demo_execute"
  "Token demo r = ''token-'' @ r" "WriteTo demo = demo_write"
  by (simp_all add: demo_def)

lemma demo_find_pages:
  "findHTMLFiles demo ''pages'' = Inr [''pages/a/home.html'', ''pages/about.html'', ''pages/b/home.html'']"
  by (simp add: findHTMLFiles_def demo_fields demo_walk_def Ext_def)

lemma demo_find_frag: "findHTMLFiles demo ''frag'' = Inr [''frag/layout.html'']"
  by (simp add: findHTMLFiles_def demo_fields demo_walk_def Ext_def)

lemma demo_find_site:
  "findHTMLFiles demo ''site'' = Inr [''site/index.html'', ''site/malformed.html'', ''site/thanks.html'']"
  by (simp add: findHTMLFiles_def demo_fields demo_walk_def Ext_def)

lemma demo_funcs_ok_nil: "demo_funcs_ok None"
  by (simp add: demo_funcs_ok_def registry_def)

lemma demo_funcs_ok_defaults: "demo_funcs_ok (Some default_functions)"
  unfolding demo_funcs_ok_def registry_def default_functions_def
  by (auto intro!: fmpred_upd simp: goodName_def is_letter_def)

lemma demo_funcs_bad: "\<not> demo_funcs_ok (Some (default_functions ++\<^sub>f bad_functions))"
proof
  assume "demo_funcs_ok (Some (default_functions ++\<^sub>f bad_functions))"
  then have "fmpred (\<lambda>name fn. goodName name) (default_functions ++\<^sub>f bad_functions)"
    by (simp add: demo_funcs_ok_def registry_def)
  moreover have "fmlookup (default_functions ++\<^sub>f bad_functions) ''my-func''
      = Some (UserFunc ''strings.ToLower'')"
    by (simp add: bad_functions_def)
  ultimately have "goodName ''my-func''"
    by (rule fmpredD)
  then show False
    by (simp add: goodName_def is_letter_def is_digit_def)
qed

lemma demo_cache_pages:
  "TemplatesPath re = ''frag'' \<Longrightarrow> PageTemplatesPath re = ''pages'' \<Longrightarrow>
   demo_funcs_ok (Functions re) \<Longrightarrow>
   createTemplateCache demo re =
     Inr (fmupd ''home.html'' (''home.html'', [''frag/layout.html'', ''pages/b/home.html''])
        (fmupd ''about.html'' (''about.html'', [''frag/layout.html'', ''pages/about.html''])
          (fmupd ''home.html'' (''home.html'', [''frag/layout.html'', ''pages/a/home.html'']) fmempty)),
      None)"
  by (simp add: createTemplateCache_def demo_find_pages demo_find_frag demo_fields demo_parse_def Base_def Let_def)

lemma demo_cache_site:
  "TemplatesPath re = ''frag'' \<Longrightarrow> PageTemplatesPath re = ''site'' \<Longrightarrow>
   demo_funcs_ok (Functions re) \<Longrightarrow>
   createTemplateCache demo re =
     Inr (fmupd ''index.html'' (''index.html'', [''frag/layout.html'', ''site/index.html'']) fmempty,
      Some (LibError ''template: unexpected EOF''))"
  by (simp add: createTemplateCache_def demo_find_site demo_find_frag demo_fields demo_parse_def Base_def Let_def)

lemma demo_cache_panics:
  "TemplatesPath re = ''frag'' \<Longrightarrow> PageTemplatesPath re = ''pages'' \<Longrightarrow>
   \<not> demo_funcs_ok (Functions re) \<Longrightarrow>
   createTemplateCache demo re = Inl (LibPanic ''function name is not a valid identifier'')"
  by (simp add: createTemplateCache_def demo_find_pages demo_find_frag demo_fields demo_parse_def Base_def Let_def)

text \<open>
  With the cache enabled, a pages root that is not empty and a registered name that is
  not an identifier, \<^verbatim>\<open>New\<close> panics.
\<close>

lemma demo_New_panics:
  "New [WithRenderOptions demo ((demo_options ''pages'' True)\<lparr>Functions := Some bad_functions\<rparr>)]
   = Inl (LibPanic ''function name is not a valid identifier'')"
  by (simp add: New_def WithRenderOptions_def merge_functions_def demo_options_def Let_def
      demo_cache_panics demo_funcs_bad)

subsection \<open>The loop of \<^verbatim>\<open>createTemplateCache\<close>\<close>

lemma parse_pages_frame:
  "parse_pages E funcs files pages acc = Inr (cache, e) \<Longrightarrow> n \<notin> Base ` set pages \<Longrightarrow>
   fmlookup cache n = fmlookup acc n"
  by (induction pages arbitrary: acc) (auto simp: Let_def split: sum.splits)

lemma parse_pages_ok:
  "\<forall>file\<in>set pages. \<exists>ts. ParseFiles E (Base file) funcs (files @ [file]) = Inr (Inr ts) \<Longrightarrow>
   \<exists>cache. parse_pages E funcs files pages acc = Inr (cache, None)
     \<and> fmdom' cache = fmdom' acc \<union> Base ` set pages"
proof (induction pages arbitrary: acc)
  case Nil
  then show ?case by simp
next
  case (Cons p pages)
  from Cons.prems obtain tp where
    tp: "ParseFiles E (Base p) funcs (files @ [p]) = Inr (Inr tp)"
    by auto
  from Cons.prems have
    "\<forall>file\<in>set pages. \<exists>ts. ParseFiles E (Base file) funcs (files @ [file]) = Inr (Inr ts)"
    by simp
  from Cons.IH [OF this, of "fmupd (Base p) tp acc"] obtain cache where
    "parse_pages E funcs files pages (fmupd (Base p) tp acc) = Inr (cache, None)"
    "fmdom' cache = fmdom' (fmupd (Base p) tp acc) \<union> Base ` set pages"
    by blast
  with tp show ?case by (simp add: Let_def)
qed

lemma parse_pages_last:
  assumes "parse_pages E funcs files (pre @ file # post) acc = Inr (cache, None)"
    and "Base file \<notin> Base ` set post"
    and "ParseFiles E (Base file) funcs (files @ [file]) = Inr (Inr ts)"
  shows "fmlookup cache (Base file) = Some ts"
  using assms
proof (induction pre arbitrary: acc)
  case Nil
  then show ?case by (simp add: Let_def parse_pages_frame)
next
  case (Cons p pre)
  from Cons.prems(1) obtain tp where
    "parse_pages E funcs files (pre @ file # post) (fmupd (Base p) tp acc) = Inr (cache, None)"
    by (auto simp: Let_def split: sum.splits)
  then show ?case
    using Cons.IH Cons.prems(2) Cons.prems(3) by blast
qed

text \<open>
  C6, as amended. When both walks succeed and every page parses,
  \<^verbatim>\<open>createTemplateCache\<close> returns a nil error and a cache whose keys are exactly the
  base names of the page files found, and the entry of a name is the template parsed
  from the last page file with that base name.
\<close>

theorem createTemplateCache_keys:
  assumes pages: "findHTMLFiles E (PageTemplatesPath re) = Inr pages"
    and frags: "findHTMLFiles E (TemplatesPath re) = Inr files"
    and ok: "\<forall>file\<in>set pages.
               \<exists>ts. ParseFiles E (Base file) (Functions re) (files @ [file]) = Inr (Inr ts)"
  shows "\<exists>cache. createTemplateCache E re = Inr (cache, None)
           \<and> fmdom' cache = Base ` set pages
           \<and> (\<forall>pre file post ts.
                 pages = pre @ file # post \<and> Base file \<notin> Base ` set post
                 \<and> ParseFiles E (Base file) (Functions re) (files @ [file]) = Inr (Inr ts)
                 \<longrightarrow> fmlookup cache (Base file) = Some ts)"
proof -
  have eq: "createTemplateCache E re = parse_pages E (Functions re) files pages fmempty"
    by (simp add: createTemplateCache_def pages frags)
  from parse_pages_ok [OF ok, of fmempty] obtain cache where
    res: "parse_pages E (Functions re) files pages fmempty = Inr (cache, None)" and
    keys: "fmdom' cache = Base ` set pages"
    by auto
  have last: "fmlookup cache (Base f) = Some ts"
    if "pages = pre @ f # post" "Base f \<notin> Base ` set post"
      "ParseFiles E (Base f) (Functions re) (files @ [f]) = Inr (Inr ts)"
    for pre f post ts
    using parse_pages_last [of E "Functions re" files pre f post fmempty cache ts] res that
    by simp
  show ?thesis
    using eq res keys last by (intro exI [of _ cache]) auto
qed

text \<open>
  The pages root of the example holds \<^verbatim>\<open>a/home.html\<close> and \<^verbatim>\<open>b/home.html\<close>: one key,
  and the later file wins.
\<close>

theorem createTemplateCache_keys_witness:
  "\<exists>cache. createTemplateCache demo (demo_options ''pages'' False) = Inr (cache, None)
     \<and> fmdom' cache = {''home.html'', ''about.html''}
     \<and> fmlookup cache ''home.html''
         = Some (''home.html'', [''frag/layout.html'', ''pages/b/home.html''])"
proof -
  let ?re = "demo_options ''pages'' False"
  let ?pages = "[''pages/a/home.html'', ''pages/about.html'', ''pages/b/home.html'']"
  have p: "findHTMLFiles demo (PageTemplatesPath ?re) = Inr ?pages"
    by (simp add: demo_options_def demo_find_pages)
  have f: "findHTMLFiles demo (TemplatesPath ?re) = Inr [''frag/layout.html'']"
    by (simp add: demo_options_def demo_find_frag)
  have ok: "\<forall>file\<in>set ?pages.
      \<exists>ts. ParseFiles demo (Base file) (Functions ?re) ([''frag/layout.html''] @ [file])
             = Inr (Inr ts)"
    by (simp add: demo_fields demo_parse_def demo_options_def demo_funcs_ok_nil)
  from createTemplateCache_keys [OF p f ok] obtain cache where
    c: "createTemplateCache demo ?re = Inr (cache, None)" and
    k: "fmdom' cache = Base ` set ?pages" and
    l: "\<forall>pre file post ts.
          ?pages = pre @ file # post \<and> Base file \<notin> Base ` set post
          \<and> ParseFiles demo (Base file) (Functions ?re) ([''frag/layout.html''] @ [file])
              = Inr (Inr ts)
          \<longrightarrow> fmlookup cache (Base file) = Some ts"
    by blast
  from l have
    "?pages = [''pages/a/home.html'', ''pages/about.html''] @ ''pages/b/home.html'' # []
       \<and> Base ''pages/b/home.html'' \<notin> Base ` set []
       \<and> ParseFiles demo (Base ''pages/b/home.html'') (Functions ?re)
           ([''frag/layout.html''] @ [''pages/b/home.html''])
         = Inr (Inr (''home.html'', [''frag/layout.html'', ''pages/b/home.html'']))
     \<longrightarrow> fmlookup cache (Base ''pages/b/home.html'')
         = Some (''home.html'', [''frag/layout.html'', ''pages/b/home.html''])"
    by blast
  then have h: "fmlookup cache ''home.html''
      = Some (''home.html'', [''frag/layout.html'', ''pages/b/home.html''])"
    by (simp add: Base_def demo_fields demo_parse_def demo_options_def demo_funcs_ok_nil)
  from k have k': "fmdom' cache = {''home.html'', ''about.html''}"
    by (auto simp: Base_def)
  show ?thesis using c h k' by simp
qed

text \<open>
  C6 as first stated asks only for the walks to succeed. With a page that does not
  parse the build stops there, and the keys returned are those of the pages before it.
\<close>

theorem createTemplateCache_keys_counterexample:
  "findHTMLFiles demo (PageTemplatesPath (demo_options ''site'' False))
     = Inr [''site/index.html'', ''site/malformed.html'', ''site/thanks.html'']
   \<and> findHTMLFiles demo (TemplatesPath (demo_options ''site'' False)) = Inr [''frag/layout.html'']
   \<and> createTemplateCache demo (demo_options ''site'' False)
     = Inr (fmupd ''index.html'' (''index.html'', [''frag/layout.html'', ''site/index.html''])
              fmempty,
            Some (LibError ''template: unexpected EOF''))
   \<and> fmdom' (fmupd ''index.html'' (''index.html'', [''frag/layout.html'', ''site/index.html''])
        (fmempty :: (string \<times> string list) TemplateCache))
       \<noteq> Base ` set [''site/index.html'', ''site/malformed.html'', ''site/thanks.html'']"
proof -
  have b: "''thanks.html'' \<in> Base ` set [''site/index.html'', ''site/malformed.html'', ''site/thanks.html'']"
    by (simp add: Base_def)
  have "fmdom' (fmupd ''index.html'' (''index.html'', [''frag/layout.html'', ''site/index.html''])
        (fmempty :: (string \<times> string list) TemplateCache))
       \<noteq> Base ` set [''site/index.html'', ''site/malformed.html'', ''site/thanks.html'']"
  proof
    assume "fmdom' (fmupd ''index.html'' (''index.html'', [''frag/layout.html'', ''site/index.html''])
        (fmempty :: (string \<times> string list) TemplateCache))
       = Base ` set [''site/index.html'', ''site/malformed.html'', ''site/thanks.html'']"
    with b have "''thanks.html'' \<in> fmdom' (fmupd ''index.html''
        (''index.html'', [''frag/layout.html'', ''site/index.html''])
        (fmempty :: (string \<times> string list) TemplateCache))"
      by (simp only:)
    then show False by simp
  qed
  then show ?thesis
    by (simp add: demo_options_def demo_find_site demo_find_frag demo_cache_site demo_funcs_ok_nil)
qed


text \<open>
  The build returns in every environment whose \<^verbatim>\<open>Funcs\<close> does not panic.
\<close>

lemma parse_pages_returns:
  "\<forall>name funcs files p. ParseFiles E name funcs files \<noteq> Inl p \<Longrightarrow>
   \<exists>res. parse_pages E funcs files pages acc = Inr res"
  by (induction pages arbitrary: acc) (auto simp: Let_def split: sum.splits)

lemma createTemplateCache_returns:
  "\<forall>name funcs files p. ParseFiles E name funcs files \<noteq> Inl p \<Longrightarrow>
   \<exists>res. createTemplateCache E re = Inr res"
  using parse_pages_returns [of E]
  by (simp add: createTemplateCache_def split: sum.splits)

subsection \<open>Options\<close>

lemma merge_functions_Some:
  "merge_functions (Some b) supplied = Inr (Some (b ++\<^sub>f registry supplied))"
  by (simp add: merge_functions_def registry_def split: option.splits)

lemma WithRenderOptions_Inr:
  assumes "WithRenderOptions E opts re = Inr re'"
  shows "config_keys re' = (EnableCache re \<or> EnableCache opts, TemplatesPath opts, PageTemplatesPath opts)"
    and "merge_functions (Functions re) (Functions opts) = Inr (Functions re')"
  using assms
  by (auto simp: WithRenderOptions_def config_keys_def Let_def split: sum.splits if_splits prod.splits)

lemma WithRenderOptions_returns:
  assumes "Functions re = Some b"
    and "\<not> EnableCache opts \<or> (\<forall>name funcs files p. ParseFiles E name funcs files \<noteq> Inl p)"
  shows "\<exists>re'. WithRenderOptions E opts re = Inr re'"
proof (cases "EnableCache opts")
  case False
  with assms(1) show ?thesis
    by (simp add: WithRenderOptions_def Let_def merge_functions_Some)
next
  case True
  with assms(2) have np: "\<forall>name funcs files p. ParseFiles E name funcs files \<noteq> Inl p"
    by simp
  let ?re3 = "re\<lparr>TemplatesPath := TemplatesPath opts, PageTemplatesPath := PageTemplatesPath opts,
                 Functions := Some (b ++\<^sub>f registry (Functions opts)), EnableCache := True\<rparr>"
  from createTemplateCache_returns [OF np, of ?re3] obtain res where
    "createTemplateCache E ?re3 = Inr res" ..
  with True assms(1) show ?thesis
    by (simp add: WithRenderOptions_def Let_def merge_functions_Some split: prod.splits)
qed

lemma apply_opts_keys:
  "apply_opts re (map (WithRenderOptions E) optss) = Inr re' \<Longrightarrow>
   config_keys re' =
     (EnableCache re \<or> (\<exists>opts\<in>set optss. EnableCache opts),
      if optss = [] then TemplatesPath re else TemplatesPath (last optss),
      if optss = [] then PageTemplatesPath re else PageTemplatesPath (last optss))"
proof (induction optss arbitrary: re)
  case Nil
  then show ?case by (simp add: config_keys_def)
next
  case (Cons opts optss)
  from Cons.prems obtain mid where
    mid: "WithRenderOptions E opts re = Inr mid" and
    rest: "apply_opts mid (map (WithRenderOptions E) optss) = Inr re'"
    by (auto split: sum.splits)
  from WithRenderOptions_Inr(1) [OF mid] have k:
    "EnableCache mid = (EnableCache re \<or> EnableCache opts)"
    "TemplatesPath mid = TemplatesPath opts"
    "PageTemplatesPath mid = PageTemplatesPath opts"
    by (simp_all add: config_keys_def)
  show ?case
    using Cons.IH [OF rest] k by auto
qed

text \<open>
  C7, as amended. On a configuration whose function map is not nil, an option merges
  the supplied map into it: every supplied name maps to the supplied callable, every
  other name keeps what the base has, and the names of the result are those of both.
  The merged map is the function map of the configuration the option returns. The option
  returns when it does not enable the cache; when it panics, the panic is that of the
  cache build, which already runs on the merged map.
\<close>

theorem WithRenderOptions_merges_functions:
  assumes "Functions re = Some base"
  shows "\<exists>merged.
      (\<forall>k v. fmlookup (registry (Functions opts)) k = Some v \<longrightarrow> fmlookup merged k = Some v)
    \<and> (\<forall>k. k \<notin> fmdom' (registry (Functions opts)) \<longrightarrow> fmlookup merged k = fmlookup base k)
    \<and> fmdom' merged = fmdom' base \<union> fmdom' (registry (Functions opts))
    \<and> (\<forall>re'. WithRenderOptions E opts re = Inr re' \<longrightarrow> Functions re' = Some merged)
    \<and> (\<not> EnableCache opts \<longrightarrow> (\<exists>re'. WithRenderOptions E opts re = Inr re'))
    \<and> (\<forall>p. WithRenderOptions E opts re = Inl p \<longrightarrow>
          EnableCache opts
          \<and> createTemplateCache E
              (re\<lparr>TemplatesPath := TemplatesPath opts,
                  PageTemplatesPath := PageTemplatesPath opts,
                  Functions := Some merged, EnableCache := True\<rparr>) = Inl p)"
proof -
  let ?m = "base ++\<^sub>f registry (Functions opts)"
  have 1: "\<forall>k v. fmlookup (registry (Functions opts)) k = Some v \<longrightarrow> fmlookup ?m k = Some v"
    by (simp add: fmlookup_dom_iff)
  have 2: "\<forall>k. k \<notin> fmdom' (registry (Functions opts)) \<longrightarrow> fmlookup ?m k = fmlookup base k"
    by (simp add: fmdom'_alt_def)
  have 3: "fmdom' ?m = fmdom' base \<union> fmdom' (registry (Functions opts))"
    by simp
  have 4: "\<forall>re'. WithRenderOptions E opts re = Inr re' \<longrightarrow> Functions re' = Some ?m"
    using WithRenderOptions_Inr(2) [of E opts re] assms
    by (simp add: merge_functions_Some)
  have 5: "\<not> EnableCache opts \<longrightarrow> (\<exists>re'. WithRenderOptions E opts re = Inr re')"
    using WithRenderOptions_returns [OF assms, of opts E] by simp
  have 6: "\<forall>p. WithRenderOptions E opts re = Inl p \<longrightarrow>
          EnableCache opts
          \<and> createTemplateCache E
              (re\<lparr>TemplatesPath := TemplatesPath opts,
                  PageTemplatesPath := PageTemplatesPath opts,
                  Functions := Some ?m, EnableCache := True\<rparr>) = Inl p"
    using assms
    by (auto simp: WithRenderOptions_def Let_def merge_functions_Some split: sum.splits if_splits prod.splits)
  from 1 2 3 4 5 6 show ?thesis
    by (intro exI [of _ ?m] conjI)
qed

text \<open>
  The defaults of \<^verbatim>\<open>New\<close> merged with a map that redefines \<^verbatim>\<open>or\<close> and adds \<^verbatim>\<open>upper\<close>.
\<close>

theorem WithRenderOptions_merges_functions_witness:
  "\<exists>re' merged.
     WithRenderOptions demo (zero_options\<lparr>Functions := Some demo_functions\<rparr>)
       (zero_options\<lparr>Functions := Some default_functions\<rparr>) = Inr re'
     \<and> Functions re' = Some merged
     \<and> fmlookup merged ''or'' = Some (UserFunc ''either'')
     \<and> fmlookup merged ''upper'' = Some (UserFunc ''strings.ToUpper'')
     \<and> fmlookup merged ''translateKey'' = Some translateKey
     \<and> fmlookup merged ''containsErrors'' = Some containsErrors
     \<and> fmlookup merged ''lower'' = None"
proof -
  let ?opts = "zero_options\<lparr>Functions := Some demo_functions\<rparr>"
  let ?re = "zero_options\<lparr>Functions := Some default_functions\<rparr>"
  have b: "Functions ?re = Some default_functions" by simp
  have nc: "\<not> EnableCache ?opts" by (simp add: zero_options_def)
  from WithRenderOptions_merges_functions [OF b, of ?opts demo] obtain merged where
    s: "\<forall>k v. fmlookup (registry (Functions ?opts)) k = Some v \<longrightarrow> fmlookup merged k = Some v" and
    k: "\<forall>k. k \<notin> fmdom' (registry (Functions ?opts)) \<longrightarrow> fmlookup merged k = fmlookup default_functions k" and
    f: "\<forall>re'. WithRenderOptions demo ?opts ?re = Inr re' \<longrightarrow> Functions re' = Some merged" and
    t: "\<not> EnableCache ?opts \<longrightarrow> (\<exists>re'. WithRenderOptions demo ?opts ?re = Inr re')"
    by blast
  from t nc obtain re' where r: "WithRenderOptions demo ?opts ?re = Inr re'"
    by blast
  with f have fr: "Functions re' = Some merged"
    by blast
  have "fmlookup merged ''or'' = Some (UserFunc ''either'')"
    using s [rule_format, of "''or''" "UserFunc ''either''"]
    by (simp add: registry_def demo_functions_def)
  moreover have "fmlookup merged ''upper'' = Some (UserFunc ''strings.ToUpper'')"
    using s [rule_format, of "''upper''" "UserFunc ''strings.ToUpper''"]
    by (simp add: registry_def demo_functions_def)
  moreover have "fmlookup merged ''translateKey'' = Some translateKey"
    using k [rule_format, of "''translateKey''"]
    by (simp add: registry_def demo_functions_def default_functions_def)
  moreover have "fmlookup merged ''containsErrors'' = Some containsErrors"
    using k [rule_format, of "''containsErrors''"]
    by (simp add: registry_def demo_functions_def default_functions_def)
  moreover have "fmlookup merged ''lower'' = None"
    using k [rule_format, of "''lower''"]
    by (simp add: registry_def demo_functions_def default_functions_def)
  ultimately show ?thesis using r fr by blast
qed

text \<open>
  C7 as first stated covers every base map. On the zero value \<^verbatim>\<open>Render{}\<close>, whose function
  map is nil, an option that supplies a function panics at the assignment and nothing
  is merged.
\<close>

theorem WithRenderOptions_merges_functions_counterexample:
  "WithRenderOptions demo (zero_options\<lparr>Functions := Some demo_functions\<rparr>) zero_options
   = Inl AssignToNilMap"
  by (simp add: WithRenderOptions_def merge_functions_def zero_options_def demo_functions_def
      Let_def)

text \<open>
  C8, as amended. In the configuration returned after options built by
  \<^verbatim>\<open>WithRenderOptions\<close> are applied in order, \<^verbatim>\<open>EnableCache\<close> is true exactly when it was
  true before or some option has it true; each path is that of the last option when
  that option gives a path that is not empty; with no option both paths are unchanged.
\<close>

theorem apply_opts_last_option:
  assumes "apply_opts re (map (WithRenderOptions E) optss) = Inr re'"
  shows "EnableCache re' = (EnableCache re \<or> (\<exists>opts\<in>set optss. EnableCache opts))
     \<and> (optss = [] \<longrightarrow>
          TemplatesPath re' = TemplatesPath re \<and> PageTemplatesPath re' = PageTemplatesPath re)
     \<and> (optss \<noteq> [] \<and> TemplatesPath (last optss) \<noteq> [] \<longrightarrow>
          TemplatesPath re' = TemplatesPath (last optss))
     \<and> (optss \<noteq> [] \<and> PageTemplatesPath (last optss) \<noteq> [] \<longrightarrow>
          PageTemplatesPath re' = PageTemplatesPath (last optss))"
  using apply_opts_keys [OF assms] by (simp add: config_keys_def)

text \<open>
  Two options on the defaults of \<^verbatim>\<open>New\<close>: the zero value, then one with both paths that
  enables the cache.
\<close>

theorem apply_opts_last_option_witness:
  "map_sum id config_keys
     (New [WithRenderOptions demo zero_options,
           WithRenderOptions demo (demo_options ''pages'' True)])
   = Inr (True, ''frag'', ''pages'')"
proof -
  let ?re = "\<lparr>EnableCache = False, TemplatesPath = ''templates'',
               PageTemplatesPath = ''templates/pages'', TemplateCache = fmempty,
               Functions = Some default_functions\<rparr> :: (string \<times> string list) Render"
  let ?optss = "[zero_options, demo_options ''pages'' True]"
  have "\<exists>re'. apply_opts ?re (map (WithRenderOptions demo) ?optss) = Inr re'"
    by (simp add: WithRenderOptions_def merge_functions_def demo_options_def zero_options_def
        Let_def demo_cache_pages demo_funcs_ok_defaults)
  then obtain re' where r: "apply_opts ?re (map (WithRenderOptions demo) ?optss) = Inr re'" ..
  from apply_opts_last_option [OF r] have "config_keys re' = (True, ''frag'', ''pages'')"
    by (simp add: config_keys_def demo_options_def)
  moreover have "New (map (WithRenderOptions demo) ?optss) = Inr re'"
    using r by (simp only: New_def)
  ultimately show ?thesis by simp
qed

text \<open>
  C8 as first stated: the first option enables the cache, the second one supplies both
  paths and has \<^verbatim>\<open>EnableCache\<close> false. The cache stays enabled.
\<close>

theorem apply_opts_last_option_counterexample:
  "map_sum id config_keys
     (New [WithRenderOptions demo (demo_options ''pages'' True),
           WithRenderOptions demo (demo_options ''site'' False)])
   = Inr (True, ''frag'', ''site'')
   \<and> map_sum id config_keys
     (New [WithRenderOptions demo (demo_options ''pages'' True),
           WithRenderOptions demo (demo_options ''site'' False)])
   \<noteq> Inr (False, ''frag'', ''site'')"
  by (simp add: New_def WithRenderOptions_def merge_functions_def config_keys_def
      demo_options_def Let_def demo_cache_pages demo_funcs_ok_defaults)

text \<open>
  C9. \<^verbatim>\<open>New()\<close> returns the default configuration: no caching, the two default paths,
  an empty cache, and the function map with exactly the three default names.
\<close>

theorem New_defaults:
  "New [] = Inr \<lparr>EnableCache = False, TemplatesPath = ''templates'',
                  PageTemplatesPath = ''templates/pages'', TemplateCache = fmempty,
                  Functions = Some default_functions\<rparr>
   \<and> fmdom' default_functions = {''translateKey'', ''or'', ''containsErrors''}
   \<and> fmlookup default_functions ''translateKey'' = Some translateKey
   \<and> fmlookup default_functions ''or'' = Some or_func
   \<and> fmlookup default_functions ''containsErrors'' = Some containsErrors"
proof -
  have "fmdom' default_functions = {''translateKey'', ''or'', ''containsErrors''}"
    unfolding default_functions_def by (simp add: insert_commute)
  then show ?thesis
    by (simp add: New_def default_functions_def)
qed

text \<open>
  C2, evaluated where it fails. With caching enabled and a pages root whose second page
  does not parse, \<^verbatim>\<open>createTemplateCache\<close> returns the map built so far next to the
  error; \<^verbatim>\<open>WithRenderOptions\<close> drops the error and stores that map, so \<^verbatim>\<open>New\<close> returns
  a configuration whose cache holds only the first page.
\<close>

theorem WithRenderOptions_keeps_partial_cache:
  "New [WithRenderOptions demo (demo_options ''site'' True)]
     = Inr \<lparr>EnableCache = True, TemplatesPath = ''frag'', PageTemplatesPath = ''site'',
            TemplateCache =
              fmupd ''index.html'' (''index.html'', [''frag/layout.html'', ''site/index.html''])
                fmempty,
            Functions = Some default_functions\<rparr>
   \<and> createTemplateCache demo
       \<lparr>EnableCache = True, TemplatesPath = ''frag'', PageTemplatesPath = ''site'',
        TemplateCache = fmempty, Functions = Some default_functions\<rparr>
     = Inr (fmupd ''index.html'' (''index.html'', [''frag/layout.html'', ''site/index.html''])
              fmempty,
            Some (LibError ''template: unexpected EOF''))"
  by (simp add: New_def WithRenderOptions_def merge_functions_def demo_options_def Let_def
      demo_cache_site demo_funcs_ok_defaults)

subsection \<open>The render call\<close>

text \<open>
  Once the template has executed, the call returns nil whatever \<^verbatim>\<open>WriteTo\<close> reports.
\<close>

lemma Template_after_execute:
  assumes "resolve_cache E re = Inr (tc, None)" and "fmlookup tc tmpl = Some t"
    and "Execute E t (addDefaultData E td r) = (buf, None)"
  shows "Template E re w r tmpl td = Inr (None, fst (WriteTo E buf w), addDefaultData E td r)"
  using assms by (simp add: Template_def Let_def split: prod.splits)

lemma demo_resolve_pages:
  "resolve_cache demo (demo_options ''pages'' False) =
     Inr (fmupd ''home.html'' (''home.html'', [''frag/layout.html'', ''pages/b/home.html''])
        (fmupd ''about.html'' (''about.html'', [''frag/layout.html'', ''pages/about.html''])
          (fmupd ''home.html'' (''home.html'', [''frag/layout.html'', ''pages/a/home.html'']) fmempty)),
      None)"
  by (simp add: resolve_cache_def demo_options_def demo_cache_pages demo_funcs_ok_nil)

text \<open>
  C3. When the template found in the resolved cache fails to execute, \<^verbatim>\<open>Template\<close>
  returns that error and the response writer is the one it was given: nothing was
  written to it. The bytes the failed execution left in the buffer are dropped.
\<close>

theorem Template_execute_error:
  assumes "resolve_cache E re = Inr (tc, None)" and "fmlookup tc tmpl = Some t"
    and "Execute E t (addDefaultData E td r) = (buf, Some err)"
  shows "Template E re w r tmpl td = Inr (Some err, w, addDefaultData E td r)"
  using assms by (simp add: Template_def Let_def)

text \<open>
  The example template needs \<^verbatim>\<open>title\<close>, and the data has no entry.
\<close>

theorem Template_execute_error_witness:
  "Template demo (demo_options ''pages'' False) (Open ''HTTP/1.1 '') ''r7'' ''about.html''
     (demo_data fmempty)
   = Inr (Some (LibError ''template: nil data; no entry for key title''), Open ''HTTP/1.1 '',
      (demo_data fmempty)\<lparr>CSRFToken := ''token-r7''\<rparr>)"
proof -
  have x: "Execute demo (''about.html'', [''frag/layout.html'', ''pages/about.html''])
      (addDefaultData demo (demo_data fmempty) ''r7'')
    = (''<h1>'', Some (LibError ''template: nil data; no entry for key title''))"
    by (simp add: demo_fields demo_execute_def addDefaultData_def demo_data_def)
  show ?thesis
    using Template_execute_error [OF demo_resolve_pages _ x, of "''about.html''" "Open ''HTTP/1.1 ''"]
    by (simp add: addDefaultData_def demo_fields)
qed

text \<open>
  C4. When the name is not a key of the resolved cache, \<^verbatim>\<open>Template\<close> returns the
  error made by \<^verbatim>\<open>errors.New\<close> and writes nothing to the response writer.
\<close>

theorem Template_not_in_cache:
  assumes "resolve_cache E re = Inr (tc, None)" and "fmlookup tc tmpl = None"
  shows "Template E re w r tmpl td
    = Inr (Some (ErrorsNew ''can't get template from cache''), w, td)"
  using assms by (simp add: Template_def)

text \<open>
  The pages root of the example has no \<^verbatim>\<open>contact.html\<close>.
\<close>

theorem Template_not_in_cache_witness:
  "Template demo (demo_options ''pages'' False) (Open []) ''r7'' ''contact.html'' (demo_data demo_title)
   = Inr (Some (ErrorsNew ''can't get template from cache''), Open [], demo_data demo_title)"
  using Template_not_in_cache [OF demo_resolve_pages, of "''contact.html''"]
  by simp

text \<open>
  C5. When \<^verbatim>\<open>Template\<close> returns nil, the view data after the call is the data it was
  given with \<^verbatim>\<open>CSRFToken\<close> set to \<^verbatim>\<open>nosurf.Token(r)\<close>.
\<close>

theorem Template_success_sets_token:
  assumes "Template E re w r tmpl td = Inr (None, w', td')"
  shows "td' = addDefaultData E td r \<and> CSRFToken td' = Token E r"
  using assms
  by (auto simp: Template_def Let_def addDefaultData_def split: sum.splits prod.splits option.splits)

text \<open>
  A call that succeeds, on an open writer.
\<close>

theorem Template_success_sets_token_witness:
  "Template demo (demo_options ''pages'' False) (Open []) ''r7'' ''home.html'' (demo_data demo_title)
     = Inr (None, Open ''<h1>home.html</h1>token-r7'',
            (demo_data demo_title)\<lparr>CSRFToken := ''token-r7''\<rparr>)
   \<and> CSRFToken ((demo_data demo_title)\<lparr>CSRFToken := ''token-r7''\<rparr>) = Token demo ''r7''"
proof -
  have x: "Execute demo (''home.html'', [''frag/layout.html'', ''pages/b/home.html''])
      (addDefaultData demo (demo_data demo_title) ''r7'')
    = (''<h1>home.html</h1>token-r7'', None)"
    by (simp add: demo_fields demo_execute_def addDefaultData_def demo_data_def demo_title_def)
  have t: "Template demo (demo_options ''pages'' False) (Open []) ''r7'' ''home.html'' (demo_data demo_title)
     = Inr (None, Open ''<h1>home.html</h1>token-r7'',
            (demo_data demo_title)\<lparr>CSRFToken := ''token-r7''\<rparr>)"
    using Template_after_execute [OF demo_resolve_pages _ x, of "''home.html''" "Open []"]
    by (simp add: addDefaultData_def demo_fields demo_write_def)
  from Template_success_sets_token [OF t] show ?thesis
    using t by simp
qed

text \<open>
  C10. When resolving the cache fails or the name is not a key of the resolved cache,
  \<^verbatim>\<open>Template\<close> returns an error, and the view data and the response writer are what
  they were before the call.
\<close>

theorem Template_early_failure_keeps_data:
  assumes "resolve_cache E re = Inr (tc, e)" and "e \<noteq> None \<or> fmlookup tc tmpl = None"
  shows "\<exists>err. Template E re w r tmpl td = Inr (Some err, w, td)"
  using assms by (cases e) (auto simp: Template_def)

text \<open>
  Without caching, on the root whose second page does not parse: the build fails.
\<close>

theorem Template_early_failure_keeps_data_witness:
  "Template demo (demo_options ''site'' False) (Open []) ''r7'' ''index.html'' (demo_data demo_title)
   = Inr (Some (LibError ''template: unexpected EOF''), Open [], demo_data demo_title)"
proof -
  have rs: "resolve_cache demo (demo_options ''site'' False) =
     Inr (fmupd ''index.html'' (''index.html'', [''frag/layout.html'', ''site/index.html'']) fmempty,
      Some (LibError ''template: unexpected EOF''))"
    by (simp add: resolve_cache_def demo_options_def demo_cache_site demo_funcs_ok_nil)
  have d: "Some (LibError ''template: unexpected EOF'') \<noteq> None
      \<or> fmlookup (fmupd ''index.html'' (''index.html'', [''frag/layout.html'', ''site/index.html'']) fmempty)
          ''index.html'' = None"
    by simp
  from Template_early_failure_keeps_data [OF rs d, of "Open []" "''r7''" "demo_data demo_title"]
  show ?thesis
    by (simp add: Template_def rs)
qed

text \<open>
  C1, evaluated where it fails. On a writer whose connection is gone \<^verbatim>\<open>WriteTo\<close>
  returns an error, and \<^verbatim>\<open>Template\<close> returns nil.
\<close>

theorem Template_write_error_returns_nil:
  "WriteTo demo ''<h1>about.html</h1>token-r7'' Closed
     = (Closed, Some (LibError ''write: broken pipe''))
   \<and> Template demo (demo_options ''pages'' False) Closed ''r7'' ''about.html'' (demo_data demo_title)
     = Inr (None, Closed, (demo_data demo_title)\<lparr>CSRFToken := ''token-r7''\<rparr>)"
proof -
  have x: "Execute demo (''about.html'', [''frag/layout.html'', ''pages/about.html''])
      (addDefaultData demo (demo_data demo_title) ''r7'')
    = (''<h1>about.html</h1>token-r7'', None)"
    by (simp add: demo_fields demo_execute_def addDefaultData_def demo_data_def demo_title_def)
  show ?thesis
    using Template_after_execute [OF demo_resolve_pages _ x, of "''about.html''" Closed]
    by (simp add: addDefaultData_def demo_fields demo_write_def)
qed

end
